theory Spec2Isabelle
  imports Complex_Main "HOL-Library.Product_Lexorder" "HOL-Library.AList"
begin

section \<open>Conventions of the embedding\<close>

text \<open>
  The repository is Python. Its functions are embedded as HOL functions of the same name.

  \<^item> A Python exception is a value of type \<open>exn\<close>; a function that can raise returns
    \<open>exn + 'a\<close>, with \<open>Inl\<close> for the raised exception. The string carried by an exception
    is what \<open>str(e)\<close> gives. Only instances of \<open>Exception\<close> are values of \<open>exn\<close>: an
    interrupt at the console is a turn of its own in the session.
  \<^item> A Python \<open>float\<close> is a \<open>real\<close>: arithmetic is exact, and \<open>nan\<close> and the infinities are
    not values. Where a claim is about rounding (the steps of a route), every float
    operation is wrapped in an explicit rounding operator \<open>fl\<close>, a parameter.
  \<^item> A Python \<open>str\<close> is a \<open>string\<close>: code points below 256.
  \<^item> \<open>str(x)\<close> of a float \<open>x\<close> is a parameter \<open>float_str\<close> where the source formats a float
    into a string.
  \<^item> The outcome of an external call (the language model, a tool, \<open>json.loads\<close>) is a
    function of the arguments of the call, given as a parameter or as a field of the
    object that makes the call.
  \<^item> Fields of different classes that share a name carry the class as a prefix
    (\<open>poi_latitude\<close>, \<open>geo_latitude\<close>, \<open>step_distance_meters\<close>, \<open>route_distance_meters\<close>).
\<close>

datatype exn =
    JSONDecodeError string
  | ValueError string
  | TypeError string
  | AttributeError string
  | Exception string

fun str_exn :: "exn \<Rightarrow> string" where
  "str_exn (JSONDecodeError m) = m"
| "str_exn (ValueError m) = m"
| "str_exn (TypeError m) = m"
| "str_exn (AttributeError m) = m"
| "str_exn (Exception m) = m"

section \<open>The \<open>math\<close> functions used by the Haversine formula\<close>

definition math_radians :: "real \<Rightarrow> real" where
  "math_radians x = x * (pi / 180)"

text \<open>\<open>math.sqrt\<close> raises \<open>ValueError\<close> on a negative argument.\<close>

definition math_sqrt :: "real \<Rightarrow> exn + real" where
  "math_sqrt x = (if x < 0 then Inl (ValueError ''math domain error'') else Inr (sqrt x))"

text \<open>\<open>math.atan2 y x\<close>: the angle of the point \<open>(x, y)\<close>, in \<open>(-pi, pi]\<close>.\<close>

definition math_atan2 :: "real \<Rightarrow> real \<Rightarrow> real" where
  "math_atan2 y x =
     (if 0 < x then arctan (y / x)
      else if x < 0 then (if 0 \<le> y then arctan (y / x) + pi else arctan (y / x) - pi)
      else if 0 < y then pi / 2
      else if y < 0 then - (pi / 2)
      else 0)"

section \<open>\<open>map_servers/poi_server.py\<close>\<close>

record POIResult =
  poi_name :: string
  poi_category :: string
  poi_latitude :: real
  poi_longitude :: real
  poi_address :: "string option"
  poi_rating :: "real option"
  poi_price_level :: "int option"
  poi_phone :: "string option"
  poi_website :: "string option"
  poi_opening_hours :: "string list option"
  poi_distance_meters :: "real option"
  poi_description :: "string option"

text \<open>The constructor call \<open>POIResult(name=..., category=..., latitude=..., longitude=...)\<close>:
  every optional field defaults to \<open>None\<close>.\<close>

definition POIResult_new :: "string \<Rightarrow> string \<Rightarrow> real \<Rightarrow> real \<Rightarrow> POIResult" where
  "POIResult_new n c lat lon =
     \<lparr> poi_name = n, poi_category = c, poi_latitude = lat, poi_longitude = lon,
       poi_address = None, poi_rating = None, poi_price_level = None, poi_phone = None,
       poi_website = None, poi_opening_hours = None, poi_distance_meters = None,
       poi_description = None \<rparr>"

definition central_park :: POIResult where
  "central_park = (POIResult_new ''Central Park'' ''park'' 40.7829 (-73.9654))
     \<lparr> poi_address := Some ''New York, NY 10024'', poi_rating := Some 4.8,
       poi_description := Some ''Iconic urban park with lakes, theaters, playgrounds, and more'' \<rparr>"

definition empire_state_building :: POIResult where
  "empire_state_building =
     (POIResult_new ''Empire State Building'' ''landmark'' 40.7484 (-73.9857))
     \<lparr> poi_address := Some ''350 5th Ave, New York, NY 10118'', poi_rating := Some 4.7,
       poi_price_level := Some 3, poi_website := Some ''https://www.esbnyc.com'',
       poi_description := Some ''Iconic Art Deco skyscraper with observation decks'' \<rparr>"

definition joes_pizza :: POIResult where
  "joes_pizza = (POIResult_new ''Joe's Pizza'' ''restaurant'' 40.7308 (-74.0023))
     \<lparr> poi_address := Some ''7 Carmine St, New York, NY 10014'', poi_rating := Some 4.5,
       poi_price_level := Some 1, poi_phone := Some ''+1 212-366-1182'',
       poi_opening_hours := Some [''Mon-Sun: 10:00 AM - 4:00 AM''],
       poi_description := Some ''Classic New York-style pizza joint'' \<rparr>"

definition metropolitan_museum :: POIResult where
  "metropolitan_museum =
     (POIResult_new ''The Metropolitan Museum of Art'' ''museum'' 40.7794 (-73.9632))
     \<lparr> poi_address := Some ''1000 5th Ave, New York, NY 10028'', poi_rating := Some 4.8,
       poi_price_level := Some 2, poi_website := Some ''https://www.metmuseum.org'',
       poi_opening_hours :=
         Some [''Sun-Thu: 10:00 AM - 5:00 PM'', ''Fri-Sat: 10:00 AM - 9:00 PM''],
       poi_description := Some ''One of the world's largest and finest art museums'' \<rparr>"

definition starbucks_reserve :: POIResult where
  "starbucks_reserve =
     (POIResult_new ''Starbucks Reserve Roastery'' ''cafe'' 40.7411 (-73.9897))
     \<lparr> poi_address := Some ''61 9th Ave, New York, NY 10011'', poi_rating := Some 4.6,
       poi_price_level := Some 3,
       poi_opening_hours := Some [''Mon-Sun: 7:00 AM - 11:00 PM''],
       poi_description := Some ''Upscale coffee experience with rare roasts'' \<rparr>"

definition times_square :: POIResult where
  "times_square = (POIResult_new ''Times Square'' ''landmark'' 40.7580 (-73.9855))
     \<lparr> poi_address := Some ''Manhattan, NY 10036'', poi_rating := Some 4.4,
       poi_description :=
         Some ''Iconic intersection known for bright lights and Broadway theaters'' \<rparr>"

definition brooklyn_bridge_park :: POIResult where
  "brooklyn_bridge_park =
     (POIResult_new ''Brooklyn Bridge Park'' ''park'' 40.7009 (-73.9969))
     \<lparr> poi_address := Some ''Brooklyn, NY 11201'', poi_rating := Some 4.7,
       poi_description := Some ''Waterfront park with stunning Manhattan skyline views'' \<rparr>"

definition grand_central_terminal :: POIResult where
  "grand_central_terminal =
     (POIResult_new ''Grand Central Terminal'' ''transit_station'' 40.7527 (-73.9772))
     \<lparr> poi_address := Some ''89 E 42nd St, New York, NY 10017'', poi_rating := Some 4.6,
       poi_description := Some ''Historic train station and architectural landmark'' \<rparr>"

definition initialize_mock_pois :: "POIResult list" where
  "initialize_mock_pois =
     [central_park, empire_state_building, joes_pizza, metropolitan_museum,
      starbucks_reserve, times_square, brooklyn_bridge_park, grand_central_terminal]"

text \<open>The server object. Of its fields only \<open>_mock_pois\<close> is read by the searches.\<close>

record POIServer =
  mock_pois :: "POIResult list"

definition POIServer_init :: POIServer where
  "POIServer_init = \<lparr> mock_pois = initialize_mock_pois \<rparr>"

text \<open>\<open>POIServer._calculate_distance\<close>, the Haversine formula. The two calls of
  \<open>math.sqrt\<close> are the places where it can raise.\<close>

definition calculate_distance :: "real \<Rightarrow> real \<Rightarrow> real \<Rightarrow> real \<Rightarrow> exn + real" where
  "calculate_distance lat1 lon1 lat2 lon2 =
     (let R = 6371000;
          phi1 = math_radians lat1;
          phi2 = math_radians lat2;
          delta_phi = math_radians (lat2 - lat1);
          delta_lambda = math_radians (lon2 - lon1);
          a = (sin (delta_phi / 2))\<^sup>2 + cos phi1 * cos phi2 * (sin (delta_lambda / 2))\<^sup>2
      in case math_sqrt a of
           Inl e \<Rightarrow> Inl e
         | Inr sa \<Rightarrow>
             (case math_sqrt (1 - a) of
                Inl e \<Rightarrow> Inl e
              | Inr sb \<Rightarrow> Inr (R * (2 * math_atan2 sa sb))))"

text \<open>The loop of \<open>search_nearby\<close> over \<open>self._mock_pois\<close>; \<open>results\<close> is the list built so far.\<close>

fun search_nearby_loop ::
  "real \<Rightarrow> real \<Rightarrow> real \<Rightarrow> string option \<Rightarrow> POIResult list \<Rightarrow> POIResult list
     \<Rightarrow> exn + POIResult list" where
  "search_nearby_loop latitude longitude radius_meters category [] results = Inr results"
| "search_nearby_loop latitude longitude radius_meters category (poi # pois) results =
     (case calculate_distance latitude longitude (poi_latitude poi) (poi_longitude poi) of
        Inl e \<Rightarrow> Inl e
      | Inr distance \<Rightarrow>
          if distance \<le> radius_meters then
            if category = None \<or> Some (poi_category poi) = category then
              search_nearby_loop latitude longitude radius_meters category pois
                (results @ [poi\<lparr>poi_distance_meters := Some distance\<rparr>])
            else search_nearby_loop latitude longitude radius_meters category pois results
          else search_nearby_loop latitude longitude radius_meters category pois results)"

text \<open>The sort key \<open>lambda x: x.distance_meters or float('inf')\<close>. Python's \<open>or\<close> takes its
  right operand when the left one is falsy, and both \<open>None\<close> and \<open>0.0\<close> are falsy. A key is
  a pair ordered lexicographically: \<open>(False, d)\<close> is the finite key \<open>d\<close>, \<open>(True, 0)\<close> is
  \<open>float('inf')\<close>, above every finite key.\<close>

definition distance_key :: "POIResult \<Rightarrow> bool \<times> real" where
  "distance_key x =
     (case poi_distance_meters x of
        None \<Rightarrow> (True, 0)
      | Some d \<Rightarrow> if d = 0 then (True, 0) else (False, d))"

text \<open>The slice \<open>xs[:k]\<close>: a negative \<open>k\<close> counts from the end.\<close>

definition slice_to :: "'a list \<Rightarrow> int \<Rightarrow> 'a list" where
  "slice_to xs k = (if 0 \<le> k then take (nat k) xs else take (nat (int (length xs) + k)) xs)"

text \<open>\<open>list.sort(key=...)\<close> is a stable sort, as \<^const>\<open>sort_key\<close> is.\<close>

definition search_nearby ::
  "POIServer \<Rightarrow> real \<Rightarrow> real \<Rightarrow> real \<Rightarrow> string option \<Rightarrow> int \<Rightarrow> exn + POIResult list" where
  "search_nearby self latitude longitude radius_meters category limit =
     (case search_nearby_loop latitude longitude radius_meters category (mock_pois self) [] of
        Inl e \<Rightarrow> Inl e
      | Inr results \<Rightarrow> Inr (slice_to (sort_key distance_key results) limit))"



section \<open>\<open>map_servers/geocoding_server.py\<close>\<close>

record GeocodingResult =
  geo_address :: string
  geo_latitude :: real
  geo_longitude :: real
  geo_confidence :: real
  geo_place_type :: "string option"
  geo_country :: "string option"
  geo_city :: "string option"

text \<open>The server object: \<open>session\<close> tells whether \<open>self.session\<close> holds an HTTP client
  (\<open>False\<close> is Python's \<open>None\<close>). A method returns its outcome and the server after it.\<close>

record GeocodingServer =
  session :: bool

definition GeocodingServer_init :: GeocodingServer where
  "GeocodingServer_init = \<lparr> session = False \<rparr>"

definition get_session :: "GeocodingServer \<Rightarrow> GeocodingServer" where
  "get_session self = (if \<not> session self then self\<lparr>session := True\<rparr> else self)"

text \<open>\<open>forward_geocode\<close> returns the one simulated record of the source; \<open>limit\<close> only
  enters the request parameters, which are never sent.\<close>

definition forward_geocode ::
  "GeocodingServer \<Rightarrow> string \<Rightarrow> int \<Rightarrow> (exn + GeocodingResult list) \<times> GeocodingServer" where
  "forward_geocode self address limit =
     (let self' = get_session self
      in (Inr [\<lparr> geo_address = address @ '' (simulated)'',
                 geo_latitude = 40.7484,
                 geo_longitude = -73.9857,
                 geo_confidence = 0.9,
                 geo_place_type = Some ''building'',
                 geo_country = Some ''United States'',
                 geo_city = Some ''New York'' \<rparr>], self'))"


text \<open>\<open>batch_geocode\<close> calls \<open>self.forward_geocode\<close>, which Python looks up on the object:
  the method is a parameter here, so that a lookup that fails can be supplied (the
  source's own \<^const>\<open>forward_geocode\<close> never raises).
  \<open>asyncio.gather(*tasks, return_exceptions=True)\<close> yields the outcomes in the order of
  the tasks, an exception as a value; the tasks are run in that order.\<close>

type_synonym forward_method =
  "GeocodingServer \<Rightarrow> string \<Rightarrow> int \<Rightarrow> (exn + GeocodingResult list) \<times> GeocodingServer"

fun gather ::
  "forward_method \<Rightarrow> GeocodingServer \<Rightarrow> string list
     \<Rightarrow> (exn + GeocodingResult list) list \<times> GeocodingServer" where
  "gather fwd self [] = ([], self)"
| "gather fwd self (addr # addresses) =
     (case fwd self addr 1 of
        (result, self') \<Rightarrow>
          (case gather fwd self' addresses of
             (results, self'') \<Rightarrow> (result # results, self'')))"

text \<open>The loop \<open>for i, result in enumerate(results)\<close>.\<close>

fun handle_exceptions ::
  "(exn + GeocodingResult list) list \<Rightarrow> GeocodingResult list list
     \<Rightarrow> GeocodingResult list list" where
  "handle_exceptions [] processed_results = processed_results"
| "handle_exceptions (result # results) processed_results =
     (case result of
        Inl e \<Rightarrow> handle_exceptions results (processed_results @ [[]])
      | Inr r \<Rightarrow> handle_exceptions results (processed_results @ [r]))"

definition batch_geocode ::
  "forward_method \<Rightarrow> GeocodingServer \<Rightarrow> string list
     \<Rightarrow> GeocodingResult list list \<times> GeocodingServer" where
  "batch_geocode fwd self addresses =
     (case gather fwd self addresses of
        (results, self') \<Rightarrow> (handle_exceptions results [], self'))"

section \<open>\<open>map_servers/routing_server.py\<close>\<close>





text \<open>\<open>RoutingServer._calculate_haversine_distance\<close>: the same body as
  \<open>POIServer._calculate_distance\<close>.\<close>

definition calculate_haversine_distance :: "real \<Rightarrow> real \<Rightarrow> real \<Rightarrow> real \<Rightarrow> exn + real" where
  "calculate_haversine_distance lat1 lon1 lat2 lon2 =
     (let R = 6371000;
          phi1 = math_radians lat1;
          phi2 = math_radians lat2;
          delta_phi = math_radians (lat2 - lat1);
          delta_lambda = math_radians (lon2 - lon1);
          a = (sin (delta_phi / 2))\<^sup>2 + cos phi1 * cos phi2 * (sin (delta_lambda / 2))\<^sup>2
      in case math_sqrt a of
           Inl e \<Rightarrow> Inl e
         | Inr sa \<Rightarrow>
             (case math_sqrt (1 - a) of
                Inl e \<Rightarrow> Inl e
              | Inr sb \<Rightarrow> Inr (R * (2 * math_atan2 sa sb))))"




section \<open>\<open>weather_agent.py\<close>\<close>

subsection \<open>JSON values and the library calls\<close>

text \<open>The Python value that \<open>json.loads\<close> returns. A float is carried as its \<open>repr\<close>. A
  \<open>dict\<close> is the list of its items in insertion order, each key once.\<close>

datatype json =
    JNull
  | JBool bool
  | JInt int
  | JFloat string
  | JStr string
  | JList "json list"
  | JDict "(string \<times> json) list"

text \<open>\<open>json.loads\<close> belongs to the Python library, not to the repository: the functions
  below take it as the parameter \<open>loads\<close>, which returns the decoded value or the exception
  raised (\<open>json.JSONDecodeError\<close> on a text that is not JSON).\<close>

type_synonym loads_fn = "string \<Rightarrow> exn + json"

text \<open>\<open>str.strip()\<close> removes the white space of both ends; these are the code points below
  256 for which \<open>str.isspace\<close> holds.\<close>

definition py_isspace :: "char \<Rightarrow> bool" where
  "py_isspace c \<longleftrightarrow> (of_char c :: nat) \<in> {9, 10, 11, 12, 13, 28, 29, 30, 31, 32, 133, 160}"

definition strip :: "string \<Rightarrow> string" where
  "strip s = rev (dropWhile py_isspace (rev (dropWhile py_isspace s)))"

text \<open>\<open>str.lower()\<close> on code points below 256.\<close>

definition lower_char :: "char \<Rightarrow> char" where
  "lower_char c =
     (let n = (of_char c :: nat)
      in if (65 \<le> n \<and> n \<le> 90) \<or> (192 \<le> n \<and> n \<le> 222 \<and> n \<noteq> 215)
         then char_of (n + 32) else c)"

definition lower :: "string \<Rightarrow> string" where
  "lower s = map lower_char s"

text \<open>The slice \<open>s[i:j]\<close> for indices that are not negative.\<close>

definition slice :: "'a list \<Rightarrow> nat \<Rightarrow> nat \<Rightarrow> 'a list" where
  "slice s i j = take (j - i) (drop i s)"

text \<open>\<open>str(n)\<close> of an integer.\<close>

fun show_nat :: "nat \<Rightarrow> string" where
  "show_nat n =
     (if n < 10 then [''0123456789'' ! n]
      else show_nat (n div 10) @ [''0123456789'' ! (n mod 10)])"

definition show_int :: "int \<Rightarrow> string" where
  "show_int i = (if i < 0 then ''-'' @ show_nat (nat (- i)) else show_nat (nat i))"

text \<open>A text between apostrophes, as Python's messages quote a name.\<close>

definition quoted :: "string \<Rightarrow> string" where
  "quoted s = [CHR 0x27] @ s @ [CHR 0x27]"

text \<open>\<open>d.get(key, default)\<close> on a Python value: only a \<open>dict\<close> has the method.\<close>

fun type_name :: "json \<Rightarrow> string" where
  "type_name JNull = ''NoneType''"
| "type_name (JBool b) = ''bool''"
| "type_name (JInt i) = ''int''"
| "type_name (JFloat r) = ''float''"
| "type_name (JStr s) = ''str''"
| "type_name (JList xs) = ''list''"
| "type_name (JDict d) = ''dict''"

definition get_method :: "json \<Rightarrow> string \<Rightarrow> json \<Rightarrow> exn + json" where
  "get_method v key dflt =
     (case v of
        JDict d \<Rightarrow> (case map_of d key of None \<Rightarrow> Inr dflt | Some x \<Rightarrow> Inr x)
      | _ \<Rightarrow> Inl (AttributeError
                 (quoted (type_name v) @ '' object has no attribute '' @ quoted ''get'')))"

text \<open>The test \<open>tool_name not in self.tool_functions\<close> hashes \<open>tool_name\<close>: a list or a dict
  raises \<open>TypeError\<close>. \<open>str_hashable\<close> gives \<open>str(tool_name)\<close> for the values that hash.\<close>

fun str_hashable :: "json \<Rightarrow> exn + string" where
  "str_hashable JNull = Inr ''None''"
| "str_hashable (JBool b) = Inr (if b then ''True'' else ''False'')"
| "str_hashable (JInt i) = Inr (show_int i)"
| "str_hashable (JFloat r) = Inr r"
| "str_hashable (JStr s) = Inr s"
| "str_hashable (JList xs) = Inl (TypeError (''unhashable type: '' @ quoted ''list''))"
| "str_hashable (JDict d) = Inl (TypeError (''unhashable type: '' @ quoted ''dict''))"

subsection \<open>The agent\<close>

text \<open>A tool is the awaited call \<open>self.tool_functions[tool_name](**parameters)\<close>: from the
  parameters to the string it returns or the exception it raises (also when the
  parameters do not fit its signature).\<close>

type_synonym tool = "json \<Rightarrow> exn + string"

text \<open>The agent object: \<open>chat_completions_create model messages temperature\<close> is
  \<open>self.client.chat.completions.create(...)\<close> followed by \<open>.choices[0].message.content\<close>,
  taken to be a string; a message is its role and its content.\<close>

record WeatherServicesAgent =
  model :: string
  chat_completions_create :: "string \<Rightarrow> (string \<times> string) list \<Rightarrow> real \<Rightarrow> exn + string"
  tool_functions :: "(string \<times> tool) list"

text \<open>\<open>__init__\<close> fills the registry with the five tools of \<open>weather_servers\<close>.\<close>

definition WeatherServicesAgent_init ::
  "string \<Rightarrow> (string \<Rightarrow> (string \<times> string) list \<Rightarrow> real \<Rightarrow> exn + string)
     \<Rightarrow> tool \<Rightarrow> tool \<Rightarrow> tool \<Rightarrow> tool \<Rightarrow> tool \<Rightarrow> WeatherServicesAgent" where
  "WeatherServicesAgent_init m client get_current_weather get_forecast get_daily_summary
       get_air_quality get_pollution_forecast =
     \<lparr> model = m,
       chat_completions_create = client,
       tool_functions =
         [(''get_current_weather'', get_current_weather),
          (''get_forecast'', get_forecast),
          (''get_daily_summary'', get_daily_summary),
          (''get_air_quality'', get_air_quality),
          (''get_pollution_forecast'', get_pollution_forecast)] \<rparr>"

definition get_system_prompt :: string where
  \<open>get_system_prompt =
       ''You are a helpful weather assistant with access to weather data tools.\<newline>''
       @ ''\<newline>''
       @ ''Available tools:\<newline>''
       @ ''1. get_current_weather(location="CityName") - Get current weather conditions\<newline>''
       @ ''2. get_forecast(location="CityName") - Get 3-hour interval forecast for 5 days\<newline>''
       @ ''3. get_daily_summary(location="CityName") - Get daily weather summary for 5 days\<newline>''
       @ ''4. get_air_quality(location="CityName") - Get current air quality and pollution data\<newline>''
       @ ''5. get_pollution_forecast(location="CityName", hours=24) - Get air quality forecast\<newline>''
       @ ''\<newline>''
       @ ''When the user asks about weather, you MUST respond with a JSON object indicating which tool to use:\<newline>''
       @ ''{\<newline>''
       @ ''  "tool": "tool_name",\<newline>''
       @ ''  "parameters": {"location": "CityName", ...}\<newline>''
       @ ''}\<newline>''
       @ ''\<newline>''
       @ ''Examples:\<newline>''
       @ ''- User: "What's the weather in London?"\<newline>''
       @ ''  Response: {"tool": "get_current_weather", "parameters": {"location": "London"}}\<newline>''
       @ ''\<newline>''
       @ ''- User: "Air quality in Beijing"\<newline>''
       @ ''  Response: {"tool": "get_air_quality", "parameters": {"location": "Beijing"}}\<newline>''
       @ ''\<newline>''
       @ ''- User: "5-day forecast for Tokyo"\<newline>''
       @ ''  Response: {"tool": "get_daily_summary", "parameters": {"location": "Tokyo"}}\<newline>''
       @ ''\<newline>''
       @ ''IMPORTANT: Only respond with the JSON object, nothing else.''\<close>

definition format_system_prompt :: string where
  "format_system_prompt =
     ''You are a helpful weather assistant. Format the following weather data into a natural, friendly response for the user. Be concise but informative. IMPORTANT: Only use the exact data provided - do not make up, guess, or infer any information. If data is missing, simply say so.''"

text \<open>The external calls of one query cycle, in the order they are made.\<close>

datatype call =
    ChatCall string "(string \<times> string) list" real
  | ToolCall string json

text \<open>The scan of lines 143 to 160: \<open>rest\<close> is the part of \<open>llm_response\<close> from index \<open>i\<close> on.
  The result \<open>None\<close> is the \<open>else\<close> of the \<open>for\<close>: no segment was decoded. The bare
  \<open>except\<close> takes every exception of \<open>json.loads\<close>, and \<open>start_idx\<close> is never reset.\<close>

fun scan_braces ::
  "loads_fn \<Rightarrow> string \<Rightarrow> string \<Rightarrow> nat \<Rightarrow> int \<Rightarrow> nat option \<Rightarrow> json option" where
  "scan_braces loads llm_response [] i brace_count start_idx = None"
| "scan_braces loads llm_response (char # rest) i brace_count start_idx =
     (if char = CHR ''{'' then
        scan_braces loads llm_response rest (i + 1) (brace_count + 1)
          (if start_idx = None then Some i else start_idx)
      else if char = CHR ''}'' then
        (case start_idx of
           Some st \<Rightarrow>
             if brace_count - 1 = 0 then
               (case loads (slice llm_response st (i + 1)) of
                  Inr tool_call \<Rightarrow> Some tool_call
                | Inl e \<Rightarrow> scan_braces loads llm_response rest (i + 1) (brace_count - 1) start_idx)
             else scan_braces loads llm_response rest (i + 1) (brace_count - 1) start_idx
         | None \<Rightarrow> scan_braces loads llm_response rest (i + 1) (brace_count - 1) start_idx)
      else scan_braces loads llm_response rest (i + 1) brace_count start_idx)"

text \<open>Lines 137 to 160: the strict parse of the stripped output, then the scan. Only a
  \<open>JSONDecodeError\<close> of the strict parse starts the scan.\<close>

definition parse_tool_call :: "loads_fn \<Rightarrow> string \<Rightarrow> exn + json" where
  "parse_tool_call loads llm_response =
     (case loads (strip llm_response) of
        Inr tool_call \<Rightarrow> Inr tool_call
      | Inl (JSONDecodeError m) \<Rightarrow>
          (case scan_braces loads llm_response llm_response 0 0 None of
             Some tool_call \<Rightarrow> Inr tool_call
           | None \<Rightarrow> Inl (JSONDecodeError ''No valid JSON found: line 1 column 1 (char 0)''))
      | Inl e \<Rightarrow> Inl e)"

definition rephrase_message :: string where
  "rephrase_message =
     ''I had trouble understanding the request. Could you please rephrase your question about weather or air quality?''"

text \<open>The two handlers that close \<open>process_query\<close>.\<close>

definition error_reply :: "exn \<Rightarrow> string" where
  "error_reply e =
     (case e of
        JSONDecodeError m \<Rightarrow> rephrase_message
      | _ \<Rightarrow> ''Sorry, I encountered an error: '' @ str_exn e)"

definition format_messages :: "string \<Rightarrow> string \<Rightarrow> string \<Rightarrow> (string \<times> string) list" where
  "format_messages user_query tool_name result =
     [(''system'', format_system_prompt),
      (''user'', ''User asked: '' @ user_query @ ''\<newline>\<newline>Tool used: '' @ tool_name
                 @ ''\<newline>Data received from API: '' @ result
                 @ ''\<newline>\<newline>Provide a natural response using ONLY this data:'')]"

text \<open>\<open>process_query\<close> returns its reply and the external calls it made. Its progress
  \<open>print\<close>s are left out.\<close>

definition process_query ::
  "loads_fn \<Rightarrow> WeatherServicesAgent \<Rightarrow> string \<Rightarrow> string \<times> call list" where
  "process_query loads self user_query =
     (let messages = [(''system'', get_system_prompt), (''user'', user_query)];
          c1 = ChatCall (model self) messages 0.3
      in case chat_completions_create self (model self) messages 0.3 of
           Inl e \<Rightarrow> (error_reply e, [c1])
         | Inr llm_response \<Rightarrow>
         (case parse_tool_call loads llm_response of
           Inl e \<Rightarrow> (error_reply e, [c1])
         | Inr tool_call \<Rightarrow>
         (case get_method tool_call ''tool'' JNull of
           Inl e \<Rightarrow> (error_reply e, [c1])
         | Inr tool_name \<Rightarrow>
         (case get_method tool_call ''parameters'' (JDict []) of
           Inl e \<Rightarrow> (error_reply e, [c1])
         | Inr parameters \<Rightarrow>
         (case str_hashable tool_name of
           Inl e \<Rightarrow> (error_reply e, [c1])
         | Inr shown \<Rightarrow>
         (case (case tool_name of JStr n \<Rightarrow> map_of (tool_functions self) n | _ \<Rightarrow> None) of
           None \<Rightarrow> (''Unknown tool: '' @ shown, [c1])
         | Some tool_function \<Rightarrow>
         (let c2 = ToolCall shown parameters
          in case tool_function parameters of
               Inl e \<Rightarrow> (error_reply e, [c1, c2])
             | Inr result \<Rightarrow>
                 (let c3 = ChatCall (model self) (format_messages user_query shown result) 0.7
                  in case chat_completions_create self (model self)
                            (format_messages user_query shown result) 0.7 of
                       Inl e \<Rightarrow> (error_reply e, [c1, c2, c3])
                     | Inr final_response \<Rightarrow> (final_response, [c1, c2, c3])))))))))"

subsection \<open>The interactive session\<close>

text \<open>What \<open>input("You: ")\<close> does at one turn of the loop: it returns a line, or raises
  \<open>KeyboardInterrupt\<close>, or raises an \<open>Exception\<close> (\<open>EOFError\<close> at the end of the input).\<close>

datatype console = Line string | KeyboardInterrupt | InputRaises exn

text \<open>The \<open>while True\<close> loop over the turns of the console. The result is what the loop
  \<open>print\<close>s and whether it has left the loop; with no turn left the session is still at
  its prompt.\<close>

fun session_loop ::
  "loads_fn \<Rightarrow> WeatherServicesAgent \<Rightarrow> console list \<Rightarrow> string list \<times> bool" where
  "session_loop loads self [] = ([], False)"
| "session_loop loads self (turn # turns) =
     (case turn of
        KeyboardInterrupt \<Rightarrow> ([''\<newline>\<newline>Session interrupted. Goodbye!''], True)
      | InputRaises e \<Rightarrow>
          (case session_loop loads self turns of
             (printed, left) \<Rightarrow> ((''\<newline>Error: '' @ str_exn e @ ''\<newline>'') # printed, left))
      | Line raw \<Rightarrow>
          (let user_input = strip raw
           in if lower user_input \<in> set [''exit'', ''quit'', ''bye''] then
                ([''\<newline>Goodbye! Stay safe and enjoy the weather!''], True)
              else if user_input = [] then session_loop loads self turns
              else
                (let response = fst (process_query loads self user_input)
                 in case session_loop loads self turns of
                      (printed, left) \<Rightarrow>
                        ((''\<newline>Agent: '' @ response @ ''\<newline>'') # printed, left))))"

definition interactive_session ::
  "loads_fn \<Rightarrow> WeatherServicesAgent \<Rightarrow> console list \<Rightarrow> string list \<times> bool" where
  "interactive_session loads self turns =
     (case session_loop loads self turns of
        (printed, left) \<Rightarrow>
          ([''\<newline>'' @ replicate 60 (CHR ''=''),
            ''Weather Services Agent - Interactive Session'',
            replicate 60 (CHR ''=''),
            ''\<newline>I can help you with weather, forecasts, and air quality!'',
            ''Type 'exit' or 'quit' to end the session.\<newline>''] @ printed, left))"

subsection \<open>A decoder for the concrete examples\<close>

text \<open>The theorems below hold for every \<open>loads\<close>. Where an example needs the decoded value
  of a given text, \<open>json_loads\<close> supplies it: a decoder that follows the scanner of Python's
  \<open>json\<close> module (\<open>scan_once\<close>, \<open>JSONObject\<close>, \<open>JSONArray\<close>, \<open>scanstring\<close>, white space
  around the value, \<open>Extra data\<close> after it) on the texts of this fragment: objects, arrays,
  strings with the one-letter escapes, integers, \<open>true\<close>, \<open>false\<close> and \<open>null\<close>. A text with
  a unicode escape, a fraction, an exponent or \<open>NaN\<close>/\<open>Infinity\<close> is outside the fragment and
  is rejected here. The first argument of the scanner bounds the depth of the recursion;
  the length of the text is enough. The message of a \<open>JSONDecodeError\<close> is given without
  its position; the agent never reads it.\<close>

definition json_space :: "char \<Rightarrow> bool" where
  "json_space c \<longleftrightarrow> c = CHR '' '' \<or> c = CHR 0x09 \<or> c = CHR 0x0A \<or> c = CHR 0x0D"

definition skip_ws :: "string \<Rightarrow> string" where
  "skip_ws s = dropWhile json_space s"

definition is_digit :: "char \<Rightarrow> bool" where
  "is_digit c \<longleftrightarrow> (48::nat) \<le> of_char c \<and> (of_char c :: nat) \<le> 57"

definition unescape :: "char \<Rightarrow> char option" where
  "unescape e =
     (if e = CHR ''\"'' then Some (CHR ''\"'')
      else if e = CHR 0x5C then Some (CHR 0x5C)
      else if e = CHR ''/'' then Some (CHR ''/'')
      else if e = CHR ''b'' then Some (CHR 0x08)
      else if e = CHR ''f'' then Some (CHR 0x0C)
      else if e = CHR ''n'' then Some (CHR 0x0A)
      else if e = CHR ''r'' then Some (CHR 0x0D)
      else if e = CHR ''t'' then Some (CHR 0x09)
      else None)"

fun scan_string :: "string \<Rightarrow> (string \<times> string) option" where
  "scan_string [] = None"
| "scan_string (c # cs) =
     (if c = CHR ''\"'' then Some ([], cs)
      else if c = CHR 0x5C then
        (case cs of
           [] \<Rightarrow> None
         | e # cs' \<Rightarrow>
             (case unescape e of
                None \<Rightarrow> None
              | Some u \<Rightarrow>
                  (case scan_string cs' of None \<Rightarrow> None | Some (s, r) \<Rightarrow> Some (u # s, r))))
      else if (of_char c :: nat) < 32 then None
      else (case scan_string cs of None \<Rightarrow> None | Some (s, r) \<Rightarrow> Some (c # s, r)))"

definition digits_value :: "string \<Rightarrow> nat" where
  "digits_value ds = foldl (\<lambda>acc d. 10 * acc + (of_char d - 48)) 0 ds"

definition starts_float :: "string \<Rightarrow> bool" where
  "starts_float r =
     (case r of
        [] \<Rightarrow> False
      | c # r1 \<Rightarrow>
          if c = CHR ''.'' then (case r1 of [] \<Rightarrow> False | d # _ \<Rightarrow> is_digit d)
          else if c = CHR ''e'' \<or> c = CHR ''E'' then
            (case r1 of
               [] \<Rightarrow> False
             | d # r2 \<Rightarrow>
                 if d = CHR ''+'' \<or> d = CHR ''-'' then
                   (case r2 of [] \<Rightarrow> False | d2 # _ \<Rightarrow> is_digit d2)
                 else is_digit d)
          else False)"

definition scan_number :: "string \<Rightarrow> (json \<times> string) option" where
  "scan_number s =
     (let neg = (case s of [] \<Rightarrow> False | c # _ \<Rightarrow> c = CHR ''-'');
          body = (if neg then tl s else s);
          ds = takeWhile is_digit body;
          int_part = (case ds of [] \<Rightarrow> [] | d # _ \<Rightarrow> if d = CHR ''0'' then [d] else ds);
          r = drop (length int_part) body
      in if int_part = [] \<or> starts_float r then None
         else Some (JInt (if neg then - int (digits_value int_part)
                          else int (digits_value int_part)), r))"

fun scan_once :: "nat \<Rightarrow> string \<Rightarrow> (json \<times> string) option"
  and scan_object :: "nat \<Rightarrow> (string \<times> json) list \<Rightarrow> string \<Rightarrow> (json \<times> string) option"
  and scan_array :: "nat \<Rightarrow> json list \<Rightarrow> string \<Rightarrow> (json \<times> string) option" where
  "scan_once 0 s = None"
| "scan_once (Suc n) s =
     (case s of
        [] \<Rightarrow> None
      | c # cs \<Rightarrow>
          if c = CHR ''\"'' then
            (case scan_string cs of None \<Rightarrow> None | Some (str, r) \<Rightarrow> Some (JStr str, r))
          else if c = CHR ''{'' then
            (case skip_ws cs of
               [] \<Rightarrow> None
             | d # r \<Rightarrow>
                 if d = CHR ''}'' then Some (JDict [], r)
                 else if d = CHR ''\"'' then scan_object n [] r
                 else None)
          else if c = CHR ''['' then
            (case skip_ws cs of
               [] \<Rightarrow> None
             | d # r \<Rightarrow> if d = CHR '']'' then Some (JList [], r) else scan_array n [] (d # r))
          else if c = CHR ''n'' \<and> take 4 s = ''null'' then Some (JNull, drop 4 s)
          else if c = CHR ''t'' \<and> take 4 s = ''true'' then Some (JBool True, drop 4 s)
          else if c = CHR ''f'' \<and> take 5 s = ''false'' then Some (JBool False, drop 5 s)
          else scan_number s)"
| "scan_object 0 pairs s = None"
| "scan_object (Suc n) pairs s =
     (case scan_string s of
        None \<Rightarrow> None
      | Some (key, r) \<Rightarrow>
          (case skip_ws r of
             [] \<Rightarrow> None
           | c # r1 \<Rightarrow>
               if c \<noteq> CHR '':'' then None
               else
                 (case scan_once n (skip_ws r1) of
                    None \<Rightarrow> None
                  | Some (v, r2) \<Rightarrow>
                      (case skip_ws r2 of
                         [] \<Rightarrow> None
                       | d # r3 \<Rightarrow>
                           if d = CHR ''}'' then Some (JDict (AList.update key v pairs), r3)
                           else if d = CHR '','' then
                             (case skip_ws r3 of
                                [] \<Rightarrow> None
                              | q # r4 \<Rightarrow>
                                  if q = CHR ''\"''
                                  then scan_object n (AList.update key v pairs) r4
                                  else None)
                           else None))))"
| "scan_array 0 vals s = None"
| "scan_array (Suc n) vals s =
     (case scan_once n s of
        None \<Rightarrow> None
      | Some (v, r) \<Rightarrow>
          (case skip_ws r of
             [] \<Rightarrow> None
           | d # r1 \<Rightarrow>
               if d = CHR '']'' then Some (JList (vals @ [v]), r1)
               else if d = CHR '','' then scan_array n (vals @ [v]) (skip_ws r1)
               else None))"

definition json_loads :: loads_fn where
  "json_loads s =
     (case scan_once (Suc (length s)) (skip_ws s) of
        None \<Rightarrow> Inl (JSONDecodeError ''Expecting value'')
      | Some (v, r) \<Rightarrow>
          if skip_ws r = [] then Inr v else Inl (JSONDecodeError ''Extra data''))"

section \<open>Closed forms used in the proofs\<close>

text \<open>The quantity \<open>a\<close> of the Haversine formula and the distance it gives when no
  \<open>math.sqrt\<close> raises.\<close>

definition haversine_a :: "real \<Rightarrow> real \<Rightarrow> real \<Rightarrow> real \<Rightarrow> real" where
  "haversine_a lat1 lon1 lat2 lon2 =
     (sin (math_radians (lat2 - lat1) / 2))\<^sup>2
       + cos (math_radians lat1) * cos (math_radians lat2)
           * (sin (math_radians (lon2 - lon1) / 2))\<^sup>2"

definition haversine :: "real \<Rightarrow> real \<Rightarrow> real \<Rightarrow> real \<Rightarrow> real" where
  "haversine lat1 lon1 lat2 lon2 =
     6371000 * (2 * math_atan2 (sqrt (haversine_a lat1 lon1 lat2 lon2))
                               (sqrt (1 - haversine_a lat1 lon1 lat2 lon2)))"

text \<open>A record with its distance from the centre, and the test of the loop of
  \<open>search_nearby\<close>.\<close>

definition with_distance :: "real \<Rightarrow> real \<Rightarrow> POIResult \<Rightarrow> POIResult" where
  "with_distance lat lon poi =
     poi\<lparr>poi_distance_meters := Some (haversine lat lon (poi_latitude poi) (poi_longitude poi))\<rparr>"

definition matches :: "real \<Rightarrow> real \<Rightarrow> real \<Rightarrow> string option \<Rightarrow> POIResult \<Rightarrow> bool" where
  "matches lat lon r cat poi \<longleftrightarrow>
     haversine lat lon (poi_latitude poi) (poi_longitude poi) \<le> r
     \<and> (cat = None \<or> Some (poi_category poi) = cat)"







fun first_decoded :: "loads_fn \<Rightarrow> string list \<Rightarrow> json option" where
  "first_decoded loads [] = None"
| "first_decoded loads (seg # segs) =
     (case loads seg of Inr v \<Rightarrow> Some v | Inl e \<Rightarrow> first_decoded loads segs)"

section \<open>Values used by the examples\<close>


text \<open>A \<open>forward_geocode\<close> whose lookup of \<open>"CausesFailure"\<close> raises.\<close>

definition failing_forward :: forward_method where
  "failing_forward self address limit =
     (if address = ''CausesFailure''
      then (Inl (Exception ''lookup failed''), get_session self)
      else forward_geocode self address limit)"


text \<open>\<open>sub in s\<close> for two strings.\<close>

fun contains :: "string \<Rightarrow> string \<Rightarrow> bool" where
  "contains sub [] = (sub = [])"
| "contains sub (c # cs) = (take (length sub) (c # cs) = sub \<or> contains sub cs)"

text \<open>An agent whose model answers the selection call (temperature 0.3) with a given
  text and the formatting call with a fixed sentence, and whose five tools all behave as
  the given tool.\<close>

definition scripted_agent :: "string \<Rightarrow> tool \<Rightarrow> WeatherServicesAgent" where
  "scripted_agent decision tool_behaviour =
     WeatherServicesAgent_init ''qwen/qwen-2.5-7b-instruct:free''
       (\<lambda>m messages temperature.
          if temperature = 0.3 then Inr decision else Inr ''It is 15.2 degrees in London.'')
       tool_behaviour tool_behaviour tool_behaviour tool_behaviour tool_behaviour"

text \<open>A tool that returns data, and a tool run without \<open>OPENWEATHER_API_KEY\<close>: the
  constructor of \<open>WeatherForecastServer\<close> raises \<open>ValueError\<close>.\<close>

definition weather_tool :: tool where
  "weather_tool parameters = Inr ''{'temperature': 15.2}''"


section \<open>The Haversine distance\<close>

subsection \<open>Bounds on \<open>pi\<close> and \<open>arctan\<close>\<close>

lemma pi_ge_3: "3 \<le> pi"
proof -
  have "sin (pi / 6) \<le> pi / 6" by (rule sin_x_le_x) simp
  then show ?thesis by (simp add: sin_30)
qed

lemma sin_315_neg: "sin (3.15::real) < 0"
proof -
  have b: "\<bar>sin (3.15::real) - (\<Sum>m<15. sin_coeff m * 3.15 ^ m)\<bar> \<le> inverse (fact 15) * \<bar>3.15\<bar> ^ 15"
    by (rule Maclaurin_sin_bound)
  have s: "(\<Sum>m<15. sin_coeff m * (3.15::real) ^ m) + inverse (fact 15) * \<bar>3.15\<bar> ^ 15 < 0"
    by (simp add: sin_coeff_def lessThan_nat_numeral sum.lessThan_Suc fact_numeral power_divide)
  from b s show ?thesis by linarith
qed

lemma pi_less_315: "pi < 3.15"
proof (rule ccontr)
  assume "\<not> pi < 3.15"
  then have "0 \<le> (3.15::real) \<and> 3.15 \<le> pi" by simp
  then have "0 \<le> sin (3.15::real)" using sin_ge_zero by blast
  with sin_315_neg show False by simp
qed

lemma arctan_le_self: "0 \<le> t \<Longrightarrow> arctan t \<le> t"
proof -
  assume t: "0 \<le> t"
  have "(\<lambda>x. x - arctan x) 0 \<le> (\<lambda>x. x - arctan x) t"
  proof (rule DERIV_nonneg_imp_nondecreasing [OF t])
    fix x :: real
    assume "0 \<le> x" "x \<le> t"
    have d: "((\<lambda>x. x - arctan x) has_real_derivative (1 - inverse (1 + x\<^sup>2))) (at x)"
      by (auto intro!: derivative_eq_intros)
    have "inverse (1 + x\<^sup>2) \<le> 1" by (simp add: inverse_le_1_iff add_nonneg_pos) 
    then have "0 \<le> 1 - inverse (1 + x\<^sup>2)" by simp
    with d show "\<exists>y. ((\<lambda>x. x - arctan x) has_real_derivative y) (at x) \<and> 0 \<le> y" by blast
  qed
  then show ?thesis by simp
qed

subsection \<open>The formula never leaves the domain of \<open>math.sqrt\<close>\<close>

lemma sin_half_sq: "(sin (x / 2))\<^sup>2 = (1 - cos x) / (2::real)"
  using cos_double_sin [of "x / 2"] by simp

lemma dot_bound:
  fixes s1 c1 s2 c2 t :: real
  assumes "s1\<^sup>2 + c1\<^sup>2 = 1" "s2\<^sup>2 + c2\<^sup>2 = 1" "\<bar>t\<bar> \<le> 1"
  shows "\<bar>s1 * s2 + c1 * c2 * t\<bar> \<le> 1"
proof -
  have a: "\<bar>s1 * s2\<bar> \<le> (s1\<^sup>2 + s2\<^sup>2) / 2"
    using sum_squares_bound [of "\<bar>s1\<bar>" "\<bar>s2\<bar>"] by (simp add: abs_mult)
  have "\<bar>c1 * c2 * t\<bar> = \<bar>c1 * c2\<bar> * \<bar>t\<bar>" by (simp add: abs_mult)
  also have "\<dots> \<le> \<bar>c1 * c2\<bar> * 1" using assms(3) by (intro mult_left_mono) auto
  finally have b0: "\<bar>c1 * c2 * t\<bar> \<le> \<bar>c1 * c2\<bar>" by simp
  have b: "\<bar>c1 * c2\<bar> \<le> (c1\<^sup>2 + c2\<^sup>2) / 2"
    using sum_squares_bound [of "\<bar>c1\<bar>" "\<bar>c2\<bar>"] by (simp add: abs_mult)
  have "\<bar>s1 * s2 + c1 * c2 * t\<bar> \<le> \<bar>s1 * s2\<bar> + \<bar>c1 * c2 * t\<bar>" by (rule abs_triangle_ineq)
  also have "\<dots> \<le> (s1\<^sup>2 + s2\<^sup>2) / 2 + (c1\<^sup>2 + c2\<^sup>2) / 2" using a b0 b by linarith
  also have "\<dots> = 1" using assms(1,2) by (simp add: field_simps)
  finally show ?thesis .
qed

lemma haversine_a_alt:
  "haversine_a lat1 lon1 lat2 lon2 =
     (1 - (sin (math_radians lat1) * sin (math_radians lat2)
           + cos (math_radians lat1) * cos (math_radians lat2)
               * cos (math_radians (lon2 - lon1)))) / 2"
proof -
  have d: "math_radians (lat2 - lat1) = math_radians lat2 - math_radians lat1"
    by (simp add: math_radians_def left_diff_distrib)
  show ?thesis
    unfolding haversine_a_def sin_half_sq d cos_diff
    by (simp add: field_simps)
qed

lemma haversine_a_range:
  "0 \<le> haversine_a lat1 lon1 lat2 lon2 \<and> haversine_a lat1 lon1 lat2 lon2 \<le> 1"
proof -
  have "\<bar>sin (math_radians lat1) * sin (math_radians lat2)
           + cos (math_radians lat1) * cos (math_radians lat2)
               * cos (math_radians (lon2 - lon1))\<bar> \<le> 1"
    by (rule dot_bound) simp_all
  then show ?thesis unfolding haversine_a_alt by (simp add: abs_le_iff)
qed

lemma calculate_distance_eq:
  "calculate_distance lat1 lon1 lat2 lon2 = Inr (haversine lat1 lon1 lat2 lon2)"
  using haversine_a_range [of lat1 lon1 lat2 lon2]
  by (simp add: calculate_distance_def haversine_def haversine_a_def math_sqrt_def Let_def)

lemma calculate_haversine_distance_eq:
  "calculate_haversine_distance lat1 lon1 lat2 lon2 = Inr (haversine lat1 lon1 lat2 lon2)"
  using haversine_a_range [of lat1 lon1 lat2 lon2]
  by (simp add: calculate_haversine_distance_def haversine_def haversine_a_def math_sqrt_def
      Let_def)

text \<open>The angle \<open>atan2 (sqrt a) (sqrt (1 - a))\<close> lies between \<open>sqrt a\<close> and
  \<open>sqrt (a / (1 - a))\<close>.\<close>

lemma atan2_quadrant_ge:
  assumes "0 \<le> a" "a \<le> 1"
  shows "sqrt a \<le> math_atan2 (sqrt a) (sqrt (1 - a))"
proof (cases "a = 1")
  case True
  have "1 \<le> pi / 2" using pi_ge_two by simp
  with True show ?thesis by (simp add: math_atan2_def)
next
  case False
  with assms have a1: "a < 1" by simp
  then have pos: "0 < sqrt (1 - a)" by simp
  have x0: "0 \<le> sqrt a" using assms(1) by simp
  have x1: "sqrt a < 1" using a1 by simp
  have xm: "-1 < sqrt a" using x0 by linarith
  have sq: "(sqrt a)\<^sup>2 = a" using assms(1) by simp
  have "math_atan2 (sqrt a) (sqrt (1 - a)) = arctan (sqrt a / sqrt (1 - a))"
    using pos by (simp add: math_atan2_def)
  also have "\<dots> = arcsin (sqrt a)" using arcsin_arctan [OF xm x1] by (simp add: sq)
  finally have e: "math_atan2 (sqrt a) (sqrt (1 - a)) = arcsin (sqrt a)" .
  have b: "0 \<le> arcsin (sqrt a)" using x0 x1 by (intro arcsin_nonneg) simp
  have "sin (arcsin (sqrt a)) \<le> arcsin (sqrt a)" using b by (rule sin_x_le_x)
  moreover have "sin (arcsin (sqrt a)) = sqrt a" using xm x1 by (intro sin_arcsin) simp_all
  ultimately show ?thesis using e by simp
qed

lemma atan2_quadrant_le:
  assumes "0 \<le> a" "a < 1"
  shows "math_atan2 (sqrt a) (sqrt (1 - a)) \<le> sqrt (a / (1 - a))"
proof -
  have pos: "0 < sqrt (1 - a)" using assms by simp
  have "math_atan2 (sqrt a) (sqrt (1 - a)) = arctan (sqrt a / sqrt (1 - a))"
    using pos by (simp add: math_atan2_def)
  also have "\<dots> \<le> sqrt a / sqrt (1 - a)"
    using assms pos by (intro arctan_le_self) simp
  finally show ?thesis by (simp add: real_sqrt_divide)
qed

lemma haversine_nonneg: "0 \<le> haversine lat1 lon1 lat2 lon2"
proof -
  have "0 \<le> sqrt (haversine_a lat1 lon1 lat2 lon2)" using haversine_a_range by simp
  also have "\<dots> \<le> math_atan2 (sqrt (haversine_a lat1 lon1 lat2 lon2))
                        (sqrt (1 - haversine_a lat1 lon1 lat2 lon2))"
    using haversine_a_range by (intro atan2_quadrant_ge) auto
  finally show ?thesis by (simp add: haversine_def)
qed

lemma haversine_same: "haversine lat lon lat lon = 0"
  by (simp add: haversine_def haversine_a_def math_radians_def math_atan2_def)

lemma haversine_ge:
  assumes "s\<^sup>2 \<le> haversine_a lat1 lon1 lat2 lon2" "0 \<le> s"
  shows "12742000 * s \<le> haversine lat1 lon1 lat2 lon2"
proof -
  let ?a = "haversine_a lat1 lon1 lat2 lon2"
  have "s \<le> sqrt ?a" using assms by (simp add: real_le_rsqrt)
  also have "\<dots> \<le> math_atan2 (sqrt ?a) (sqrt (1 - ?a))"
    using haversine_a_range by (intro atan2_quadrant_ge) auto
  finally show ?thesis by (simp add: haversine_def)
qed

lemma haversine_le:
  assumes "haversine_a lat1 lon1 lat2 lon2 \<le> A" "A < 1" "A / (1 - A) \<le> t\<^sup>2" "0 \<le> t"
  shows "haversine lat1 lon1 lat2 lon2 \<le> 12742000 * t"
proof -
  let ?a = "haversine_a lat1 lon1 lat2 lon2"
  have a0: "0 \<le> ?a" and a1: "?a < 1" using haversine_a_range assms by (auto intro: le_less_trans)
  have "?a * (1 - A) \<le> A * (1 - ?a)" using assms(1) by (simp add: algebra_simps)
  then have "?a / (1 - ?a) \<le> A / (1 - A)" using a1 assms(2) by (simp add: frac_le_eq field_simps)
  then have "?a / (1 - ?a) \<le> t\<^sup>2" using assms(3) by simp
  then have "sqrt (?a / (1 - ?a)) \<le> t" using assms(4) by (simp add: real_le_lsqrt)
  moreover have "math_atan2 (sqrt ?a) (sqrt (1 - ?a)) \<le> sqrt (?a / (1 - ?a))"
    using a0 a1 by (rule atan2_quadrant_le)
  ultimately show ?thesis by (simp add: haversine_def)
qed

lemma sin_sq_le: "(sin x)\<^sup>2 \<le> (x::real)\<^sup>2"
proof -
  have "\<bar>sin x\<bar>\<^sup>2 \<le> \<bar>x\<bar>\<^sup>2" by (intro power_mono abs_sin_x_le_abs_x) simp
  then show ?thesis by simp
qed

lemma haversine_a_le:
  "haversine_a lat1 lon1 lat2 lon2
     \<le> (math_radians (lat2 - lat1) / 2)\<^sup>2 + (math_radians (lon2 - lon1) / 2)\<^sup>2"
proof -
  let ?x = "math_radians (lat2 - lat1) / 2" and ?y = "math_radians (lon2 - lon1) / 2"
  have sx: "(sin ?x)\<^sup>2 \<le> ?x\<^sup>2" by (rule sin_sq_le)
  have sy: "(sin ?y)\<^sup>2 \<le> ?y\<^sup>2" by (rule sin_sq_le)
  have "\<bar>cos (math_radians lat1) * cos (math_radians lat2)\<bar> \<le> 1 * 1"
    unfolding abs_mult by (intro mult_mono) auto
  then have c: "cos (math_radians lat1) * cos (math_radians lat2) \<le> 1" by simp
  have "cos (math_radians lat1) * cos (math_radians lat2) * (sin ?y)\<^sup>2 \<le> 1 * (sin ?y)\<^sup>2"
    using c by (intro mult_right_mono) auto
  with sx sy show ?thesis unfolding haversine_a_def by linarith
qed

lemma cos_radians_nonneg:
  assumes "-90 \<le> lat" "lat \<le> 90"
  shows "0 \<le> cos (math_radians lat)"
proof (rule cos_ge_zero)
  have "(-90) * (pi / 180) \<le> lat * (pi / 180)" using assms(1) by (intro mult_right_mono) auto
  then show "- (pi / 2) \<le> math_radians lat" by (simp add: math_radians_def)
  have "lat * (pi / 180) \<le> 90 * (pi / 180)" using assms(2) by (intro mult_right_mono) auto
  then show "math_radians lat \<le> pi / 2" by (simp add: math_radians_def)
qed

lemma haversine_a_ge:
  assumes "-90 \<le> lat1" "lat1 \<le> 90" "-90 \<le> lat2" "lat2 \<le> 90"
  shows "(sin (math_radians (lat2 - lat1) / 2))\<^sup>2 \<le> haversine_a lat1 lon1 lat2 lon2"
proof -
  have c: "0 \<le> cos (math_radians lat1) * cos (math_radians lat2)"
    using assms by (intro mult_nonneg_nonneg cos_radians_nonneg)
  have "0 \<le> cos (math_radians lat1) * cos (math_radians lat2)
                    * (sin (math_radians (lon2 - lon1) / 2))\<^sup>2"
    by (rule mult_nonneg_nonneg [OF c]) simp
  then show ?thesis unfolding haversine_a_def by linarith
qed

subsection \<open>Distances between given points\<close>

lemma sin_lower: 
  assumes "0 \<le> (x::real)" 
  shows "x - x ^ 3 / 6 \<le> sin x"
proof -
  have "\<bar>sin x - (\<Sum>m<3. sin_coeff m * x ^ m)\<bar> \<le> inverse (fact 3) * \<bar>x\<bar> ^ 3"
    by (rule Maclaurin_sin_bound)
  moreover have "(\<Sum>m<3. sin_coeff m * x ^ m) = x"
    by (simp add: sin_coeff_def lessThan_nat_numeral sum.lessThan_Suc)
  moreover have "inverse (fact 3) * \<bar>x\<bar> ^ 3 = x ^ 3 / 6"
    using assms by (simp add: fact_numeral)
  ultimately show ?thesis by linarith
qed

lemma radians_half_le:
  assumes "\<bar>d\<bar> \<le> b"
  shows "(math_radians d / 2)\<^sup>2 \<le> (b * 3.15 / 360)\<^sup>2"
proof -
  have "\<bar>math_radians d / 2\<bar> = \<bar>d\<bar> * (pi / 360)" by (simp add: math_radians_def abs_mult)
  also have "\<dots> \<le> b * (pi / 360)" using assms by (intro mult_right_mono) auto
  also have "\<dots> \<le> b * (3.15 / 360)" using assms pi_less_315 by (intro mult_left_mono) auto
  finally have "\<bar>math_radians d / 2\<bar> \<le> b * 3.15 / 360" by simp
  then have "\<bar>math_radians d / 2\<bar>\<^sup>2 \<le> (b * 3.15 / 360)\<^sup>2" by (intro power_mono) auto
  then show ?thesis unfolding power2_abs .
qed

lemma haversine_small_le:
  assumes "\<bar>lat2 - lat1\<bar> \<le> dlat" "\<bar>lon2 - lon1\<bar> \<le> dlon"
    and "(dlat * 3.15 / 360)\<^sup>2 + (dlon * 3.15 / 360)\<^sup>2 \<le> A" "A < 1" "A / (1 - A) \<le> t\<^sup>2" "0 \<le> t"
  shows "haversine lat1 lon1 lat2 lon2 \<le> 12742000 * t"
proof (rule haversine_le [where A = A])
  show "haversine_a lat1 lon1 lat2 lon2 \<le> A"
    using haversine_a_le [of lat1 lon1 lat2 lon2] radians_half_le [OF assms(1)]
      radians_half_le [OF assms(2)] assms(3) by linarith
qed (use assms in auto)

lemma haversine_small_ge:
  assumes "-90 \<le> lat1" "lat1 \<le> 90" "-90 \<le> lat2" "lat2 \<le> 90"
    and "0 \<le> x0" "x0 \<le> (lat2 - lat1) * 3 / 360" "0 \<le> s" "s \<le> x0 - x0 ^ 3 / 6"
  shows "12742000 * s \<le> haversine lat1 lon1 lat2 lon2"
proof (rule haversine_ge)
  let ?x = "math_radians (lat2 - lat1) / 2"
  have d0: "0 \<le> lat2 - lat1" using assms(5,6) by simp
  have "(lat2 - lat1) * 3 / 360 = (lat2 - lat1) * (3 / 360)" by simp
  also have "\<dots> \<le> (lat2 - lat1) * (pi / 360)" using d0 pi_ge_3 by (intro mult_left_mono) auto
  finally have x0: "x0 \<le> ?x" using assms(6) by (simp add: math_radians_def)
  have "(lat2 - lat1) * (pi / 360) \<le> 180 * (pi / 360)"
    using assms(1-4) by (intro mult_right_mono) auto
  then have xu: "?x \<le> pi / 2" by (simp add: math_radians_def)
  have "- (pi / 2) \<le> x0" using assms(5) pi_ge_zero by linarith
  then have "sin x0 \<le> sin ?x" using x0 xu by (rule sin_monotone_2pi_le)
  then have "s \<le> sin ?x" using sin_lower [OF assms(5)] assms(8) by linarith
  then have "s\<^sup>2 \<le> (sin ?x)\<^sup>2" using assms(7) by (intro power_mono) auto
  also have "\<dots> \<le> haversine_a lat1 lon1 lat2 lon2" using assms(1-4) by (rule haversine_a_ge)
  finally show "s\<^sup>2 \<le> haversine_a lat1 lon1 lat2 lon2" .
  show "0 \<le> s" by (rule assms(7))
qed

lemma haversine_esb_central_park:
  "3500 \<le> haversine 40.7484 (-73.9857) 40.7829 (-73.9654) \<and>
   haversine 40.7484 (-73.9857) 40.7829 (-73.9654) \<le> 4500"
proof
  have "12742000 * (3500 / 12742000) \<le> haversine 40.7484 (-73.9857) 40.7829 (-73.9654)"
    by (rule haversine_small_ge [where ?x0.0 = "0.0002875"]) (simp_all add: power3_eq_cube)
  then show "3500 \<le> haversine 40.7484 (-73.9857) 40.7829 (-73.9654)" by simp
  have "haversine 40.7484 (-73.9857) 40.7829 (-73.9654) \<le> 12742000 * (4500 / 12742000)"
    by (rule haversine_small_le [where dlat = "0.0345" and dlon = "0.0203" and A = "0.000000123"])
       (simp_all add: power2_eq_square)
  then show "haversine 40.7484 (-73.9857) 40.7829 (-73.9654) \<le> 4500" by simp
qed

lemma haversine_esb_times_square:
  "0 < haversine 40.7484 (-73.9857) 40.7580 (-73.9855) \<and>
   haversine 40.7484 (-73.9857) 40.7580 (-73.9855) \<le> 5000"
proof
  have "12742000 * (1 / 12742000) \<le> haversine 40.7484 (-73.9857) 40.7580 (-73.9855)"
    by (rule haversine_small_ge [where ?x0.0 = "0.00008"]) (simp_all add: power3_eq_cube)
  then show "0 < haversine 40.7484 (-73.9857) 40.7580 (-73.9855)" by simp
  have "haversine 40.7484 (-73.9857) 40.7580 (-73.9855) \<le> 12742000 * (5000 / 12742000)"
    by (rule haversine_small_le [where dlat = "0.0096" and dlon = "0.0002" and A = "0.00000001"])
       (simp_all add: power2_eq_square)
  then show "haversine 40.7484 (-73.9857) 40.7580 (-73.9855) \<le> 5000" by simp
qed

section \<open>Properties of the POI searches\<close>

lemma search_nearby_loop_eq:
  "search_nearby_loop lat lon r cat pois results =
     Inr (results @ map (with_distance lat lon) (filter (matches lat lon r cat) pois))"
  by (induction pois arbitrary: results)
     (simp_all add: calculate_distance_eq matches_def with_distance_def)

lemma search_nearby_eq:
  "search_nearby self lat lon r cat limit =
     Inr (slice_to (sort_key distance_key
            (map (with_distance lat lon) (filter (matches lat lon r cat) (mock_pois self)))) limit)"
  by (simp add: search_nearby_def search_nearby_loop_eq)

lemma length_slice_to:
  "length (slice_to xs k) = (if 0 \<le> k then min (nat k) (length xs) else nat (int (length xs) + k))"
  by (auto simp: slice_to_def)





lemma set_slice_to: "set (slice_to xs k) \<subseteq> set xs"
  by (auto simp: slice_to_def dest: in_set_takeD)

lemma landmarks_near_esb:
  "filter (matches 40.7484 (-73.9857) 5000 (Some ''landmark'')) initialize_mock_pois
     = [empire_state_building, times_square]"
  using haversine_esb_times_square
  by (simp add: initialize_mock_pois_def matches_def central_park_def empire_state_building_def
      joes_pizza_def metropolitan_museum_def starbucks_reserve_def times_square_def
      brooklyn_bridge_park_def grand_central_terminal_def POIResult_new_def haversine_same)

lemma search_nearby_landmarks:
  "search_nearby POIServer_init 40.7484 (-73.9857) 5000 (Some ''landmark'') 10 =
     Inr [times_square\<lparr>poi_distance_meters :=
            Some (haversine 40.7484 (-73.9857) 40.7580 (-73.9855))\<rparr>,
          empire_state_building\<lparr>poi_distance_meters := Some 0\<rparr>]"
proof -
  have e: "with_distance 40.7484 (-73.9857) empire_state_building
             = empire_state_building\<lparr>poi_distance_meters := Some 0\<rparr>"
    by (simp add: with_distance_def empire_state_building_def POIResult_new_def haversine_same)
  have t: "with_distance 40.7484 (-73.9857) times_square
             = times_square\<lparr>poi_distance_meters :=
                 Some (haversine 40.7484 (-73.9857) 40.7580 (-73.9855))\<rparr>"
    by (simp add: with_distance_def times_square_def POIResult_new_def)
  have k: "distance_key (empire_state_building\<lparr>poi_distance_meters := Some 0\<rparr>) = (True, 0)"
    by (simp add: distance_key_def)
  have k2: "distance_key (times_square\<lparr>poi_distance_meters :=
                 Some (haversine 40.7484 (-73.9857) 40.7580 (-73.9855))\<rparr>)
             = (False, haversine 40.7484 (-73.9857) 40.7580 (-73.9855))"
    using haversine_esb_times_square by (simp add: distance_key_def)
  have f: "mock_pois POIServer_init = initialize_mock_pois" by (simp add: POIServer_init_def)
  show ?thesis
    unfolding search_nearby_eq f landmarks_near_esb list.map e t sort_key_def foldr.simps
      o_apply id_apply insort_key.simps k k2
    by (simp add: slice_to_def less_eq_prod_def)
qed





lemma slice_to_all: "int (length xs) \<le> k \<Longrightarrow> slice_to xs k = xs"
  by (simp add: slice_to_def)

lemma slice_to_take: "\<exists>n. slice_to xs k = take n xs"
  by (auto simp: slice_to_def)

lemma search_nearby_length:
  assumes "0 \<le> limit" "search_nearby self lat lon r cat limit = Inr rs"
  shows "int (length rs) \<le> limit"
  using assms unfolding search_nearby_eq by (auto simp: length_slice_to)

lemma search_nearby_within_radius:
  assumes "search_nearby self lat lon r cat limit = Inr rs" "poi \<in> set rs"
  shows "\<exists>d. poi_distance_meters poi = Some d \<and> 0 \<le> d \<and> d \<le> r"
proof -
  from assms have "poi \<in> set (map (with_distance lat lon)
                      (filter (matches lat lon r cat) (mock_pois self)))"
    unfolding search_nearby_eq using set_slice_to by fastforce
  then obtain p where "matches lat lon r cat p" "poi = with_distance lat lon p" by auto
  then show ?thesis by (auto simp: matches_def with_distance_def haversine_nonneg)
qed

lemma search_nearby_sorted_by_key:
  assumes "search_nearby self lat lon r cat limit = Inr rs"
  shows "sorted (map distance_key rs)"
proof -
  obtain n where "rs = take n (sort_key distance_key (map (with_distance lat lon)
                      (filter (matches lat lon r cat) (mock_pois self))))"
    using assms slice_to_take unfolding search_nearby_eq by (metis Inr_inject)
  then show ?thesis by (simp add: take_map [symmetric] sorted_wrt_take)
qed

lemma landmarks_sorted:
  "sort_key distance_key (map (with_distance 40.7484 (-73.9857))
       (filter (matches 40.7484 (-73.9857) 5000 (Some ''landmark'')) (mock_pois POIServer_init)))
     = [times_square\<lparr>poi_distance_meters :=
            Some (haversine 40.7484 (-73.9857) 40.7580 (-73.9855))\<rparr>,
        empire_state_building\<lparr>poi_distance_meters := Some 0\<rparr>]"
proof -
  have e: "with_distance 40.7484 (-73.9857) empire_state_building
             = empire_state_building\<lparr>poi_distance_meters := Some 0\<rparr>"
    by (simp add: with_distance_def empire_state_building_def POIResult_new_def haversine_same)
  have t: "with_distance 40.7484 (-73.9857) times_square
             = times_square\<lparr>poi_distance_meters :=
                 Some (haversine 40.7484 (-73.9857) 40.7580 (-73.9855))\<rparr>"
    by (simp add: with_distance_def times_square_def POIResult_new_def)
  have k: "distance_key (empire_state_building\<lparr>poi_distance_meters := Some 0\<rparr>) = (True, 0)"
    by (simp add: distance_key_def)
  have k2: "distance_key (times_square\<lparr>poi_distance_meters :=
                 Some (haversine 40.7484 (-73.9857) 40.7580 (-73.9855))\<rparr>)
             = (False, haversine 40.7484 (-73.9857) 40.7580 (-73.9855))"
    using haversine_esb_times_square by (simp add: distance_key_def)
  have f: "mock_pois POIServer_init = initialize_mock_pois" by (simp add: POIServer_init_def)
  show ?thesis
    unfolding f landmarks_near_esb list.map e t sort_key_def foldr.simps
      o_apply id_apply insort_key.simps k k2
    by (simp add: less_eq_prod_def)
qed

lemma search_nearby_landmarks_limit:
  "2 \<le> limit \<Longrightarrow>
   search_nearby POIServer_init 40.7484 (-73.9857) 5000 (Some ''landmark'') limit =
     Inr [times_square\<lparr>poi_distance_meters :=
            Some (haversine 40.7484 (-73.9857) 40.7580 (-73.9855))\<rparr>,
          empire_state_building\<lparr>poi_distance_meters := Some 0\<rparr>]"
  unfolding search_nearby_eq landmarks_sorted by (simp add: slice_to_all)

text \<open>Claim C5, at the input where the code departs from it. The search of the landmarks
  within 5000 meters of the Empire State Building returns Times Square, at a positive
  distance, before the Empire State Building itself, at distance 0: the sort key turns
  the distance \<open>0.0\<close> into \<open>float('inf')\<close>, and the result is not ascending by distance.\<close>

theorem search_nearby_zero_distance_last:
  "\<exists>d. 0 < d \<and>
     search_nearby POIServer_init 40.7484 (-73.9857) 5000 (Some ''landmark'') 10 =
       Inr [times_square\<lparr>poi_distance_meters := Some d\<rparr>,
            empire_state_building\<lparr>poi_distance_meters := Some 0\<rparr>]"
proof -
  have "search_nearby POIServer_init 40.7484 (-73.9857) 5000 (Some ''landmark'') 10 =
     Inr [times_square\<lparr>poi_distance_meters :=
            Some (haversine 40.7484 (-73.9857) 40.7580 (-73.9855))\<rparr>,
          empire_state_building\<lparr>poi_distance_meters := Some 0\<rparr>]"
    by (rule search_nearby_landmarks_limit) simp
  with haversine_esb_times_square show ?thesis by blast
qed




section \<open>Properties of the geocoding server and of the distances\<close>

lemma handle_exceptions_eq:
  "handle_exceptions results processed =
     processed @ map (\<lambda>result. case result of Inl e \<Rightarrow> [] | Inr r \<Rightarrow> r) results"
  by (induction results arbitrary: processed) (simp_all split: sum.splits)

lemma gather_Cons_fst:
  "fst (gather fwd self (a # addresses)) =
     fst (fwd self a 1) # fst (gather fwd (snd (fwd self a 1)) addresses)"
  by (simp split: prod.splits)

lemma gather_Cons_snd:
  "snd (gather fwd self (a # addresses)) = snd (gather fwd (snd (fwd self a 1)) addresses)"
  by (simp split: prod.splits)

lemma length_gather: "length (fst (gather fwd self addresses)) = length addresses"
proof (induction addresses arbitrary: self)
  case Nil
  show ?case by simp
next
  case (Cons a addresses)
  show ?case unfolding gather_Cons_fst by (simp add: Cons.IH)
qed

lemma gather_nth:
  "i < length addresses \<Longrightarrow>
     fst (gather fwd self addresses) ! i
       = fst (fwd (snd (gather fwd self (take i addresses))) (addresses ! i) 1)"
proof (induction addresses arbitrary: self i)
  case Nil
  then show ?case by simp
next
  case (Cons a addresses)
  show ?case
  proof (cases i)
    case 0
    show ?thesis unfolding 0 gather_Cons_fst by simp
  next
    case (Suc j)
    with Cons.prems have j: "j < length addresses" by simp
    show ?thesis
      unfolding Suc gather_Cons_fst take_Suc_Cons gather_Cons_snd nth_Cons_Suc
      by (rule Cons.IH [OF j])
  qed
qed

text \<open>Claim C9. \<open>batch_geocode\<close> returns one element for each address, in the order of the
  addresses: the element at index \<open>i\<close> is what the lookup of the address at index \<open>i\<close>
  returned, and the empty list when that lookup raised. A lookup that raises changes no
  other element and does not end the batch.\<close>

theorem batch_geocode_parallel:
  "length (fst (batch_geocode fwd self addresses)) = length addresses \<and>
   (\<forall>i < length addresses.
      fst (batch_geocode fwd self addresses) ! i =
        (case fst (fwd (snd (gather fwd self (take i addresses))) (addresses ! i) 1) of
           Inl e \<Rightarrow> []
         | Inr r \<Rightarrow> r))"
proof -
  have b: "fst (batch_geocode fwd self addresses) =
             map (\<lambda>result. case result of Inl e \<Rightarrow> [] | Inr r \<Rightarrow> r)
               (fst (gather fwd self addresses))"
    by (simp add: batch_geocode_def handle_exceptions_eq split: prod.splits)
  show ?thesis
    unfolding b by (simp add: length_gather gather_nth)
qed

text \<open>The batch \<open>["ValidAddress", "CausesFailure"]\<close>, where the second lookup raises.\<close>

theorem batch_geocode_parallel_witness:
  "length (fst (batch_geocode failing_forward GeocodingServer_init
              [''ValidAddress'', ''CausesFailure''])) = 2
   \<and> fst (batch_geocode failing_forward GeocodingServer_init
              [''ValidAddress'', ''CausesFailure'']) ! 0
       = [\<lparr> geo_address = ''ValidAddress (simulated)'', geo_latitude = 40.7484,
             geo_longitude = -73.9857, geo_confidence = 0.9,
             geo_place_type = Some ''building'', geo_country = Some ''United States'',
             geo_city = Some ''New York'' \<rparr>]
   \<and> fst (batch_geocode failing_forward GeocodingServer_init
              [''ValidAddress'', ''CausesFailure'']) ! 1 = []"
proof -
  note t = batch_geocode_parallel [of failing_forward GeocodingServer_init
              "[''ValidAddress'', ''CausesFailure'']"]
  from t have l: "length (fst (batch_geocode failing_forward GeocodingServer_init
              [''ValidAddress'', ''CausesFailure''])) = 2" by simp
  from t have "fst (batch_geocode failing_forward GeocodingServer_init
              [''ValidAddress'', ''CausesFailure'']) ! 0 =
        (case fst (failing_forward (snd (gather failing_forward GeocodingServer_init
                 (take 0 [''ValidAddress'', ''CausesFailure''])))
               ([''ValidAddress'', ''CausesFailure''] ! 0) 1) of
           Inl e \<Rightarrow> [] | Inr r \<Rightarrow> r)" by simp
  then have a: "fst (batch_geocode failing_forward GeocodingServer_init
              [''ValidAddress'', ''CausesFailure'']) ! 0
       = [\<lparr> geo_address = ''ValidAddress (simulated)'', geo_latitude = 40.7484,
             geo_longitude = -73.9857, geo_confidence = 0.9,
             geo_place_type = Some ''building'', geo_country = Some ''United States'',
             geo_city = Some ''New York'' \<rparr>]"
    by (simp add: failing_forward_def forward_geocode_def)
  from t have "fst (batch_geocode failing_forward GeocodingServer_init
              [''ValidAddress'', ''CausesFailure'']) ! 1 =
        (case fst (failing_forward (snd (gather failing_forward GeocodingServer_init
                 (take 1 [''ValidAddress'', ''CausesFailure''])))
               ([''ValidAddress'', ''CausesFailure''] ! 1) 1) of
           Inl e \<Rightarrow> [] | Inr r \<Rightarrow> r)" by simp
  then have b: "fst (batch_geocode failing_forward GeocodingServer_init
              [''ValidAddress'', ''CausesFailure'']) ! 1 = []"
    by (simp add: failing_forward_def)
  from l a b show ?thesis by simp
qed

text \<open>Claim C8. Both copies of the Haversine function return 0 for two identical points,
  and a distance between 3500 and 4500 meters for the Empire State Building and Central
  Park.\<close>

theorem haversine_identical_points_and_landmarks:
  "calculate_haversine_distance lat lon lat lon = Inr 0
   \<and> calculate_distance lat lon lat lon = Inr 0
   \<and> (\<exists>d. calculate_haversine_distance 40.7484 (-73.9857) 40.7829 (-73.9654) = Inr d
          \<and> calculate_distance 40.7484 (-73.9857) 40.7829 (-73.9654) = Inr d
          \<and> 3500 \<le> d \<and> d \<le> 4500)"
  using haversine_esb_central_park
  by (simp add: calculate_haversine_distance_eq calculate_distance_eq haversine_same)








section \<open>The steps of a route\<close>













section \<open>Properties of the agent\<close>

subsection \<open>The scan is the first decoded segment\<close>









lemma first_decoded_Some:
  "first_decoded loads segs = Some v \<Longrightarrow> \<exists>seg \<in> set segs. loads seg = Inr v"
  by (induction segs) (auto split: sum.splits)






lemma process_query_unknown:
  assumes "chat_completions_create self (model self)
             [(''system'', get_system_prompt), (''user'', q)] 0.3 = Inr r"
    and "parse_tool_call loads r = Inr (JDict d)"
    and "str_hashable (case map_of d ''tool'' of None \<Rightarrow> JNull | Some v \<Rightarrow> v) = Inr shown"
    and "\<forall>n. map_of d ''tool'' = Some (JStr n) \<longrightarrow> map_of (tool_functions self) n = None"
  shows "process_query loads self q =
           (''Unknown tool: '' @ shown,
            [ChatCall (model self) [(''system'', get_system_prompt), (''user'', q)] 0.3])"
proof (cases "map_of d ''tool''")
  case None
  with assms show ?thesis
    by (simp add: process_query_def Let_def get_method_def split: option.splits)
next
  case (Some v)
  with assms show ?thesis
    by (cases v) (simp_all add: process_query_def Let_def get_method_def split: option.splits)
qed





lemma ev_chat:
  "chat_completions_create (scripted_agent decision t) (model (scripted_agent decision t))
     messages 0.3 = Inr decision"
  by (simp add: scripted_agent_def WeatherServicesAgent_init_def)

lemma ev_tools:
  "map_of (tool_functions (scripted_agent decision t)) n =
     (if n \<in> set [''get_current_weather'', ''get_forecast'', ''get_daily_summary'',
                    ''get_air_quality'', ''get_pollution_forecast''] then Some t else None)"
  by (simp add: scripted_agent_def WeatherServicesAgent_init_def)


lemma ev_traffic:
  \<open>parse_tool_call json_loads ''{"tool": "get_traffic", "parameters": {"location": "Paris"}}''
     = Inr (JDict [(''tool'', JStr ''get_traffic''),
                   (''parameters'', JDict [(''location'', JStr ''Paris'')])])\<close>
  by code_simp



lemma ev_strip: "strip ''Traffic in Paris?'' = ''Traffic in Paris?''"
  by code_simp

lemma ev_lower: "lower ''Traffic in Paris?'' \<notin> set [''exit'', ''quit'', ''bye'']"
  by code_simp

lemma ev_quit: "lower (strip '' Quit '') = ''quit''"
  by code_simp




text \<open>Claim C2 fails on the message: for the tool \<open>get_traffic\<close>, absent from the
  registry, the reply is \<open>Unknown tool: get_traffic\<close>, which is not the rephrase message.\<close>

theorem unknown_tool_counterexample:
  \<open>fst (process_query json_loads
          (scripted_agent ''{"tool": "get_traffic", "parameters": {"location": "Paris"}}''
             weather_tool)
          ''Traffic in Paris?'') = ''Unknown tool: get_traffic''
   \<and> fst (process_query json_loads
          (scripted_agent ''{"tool": "get_traffic", "parameters": {"location": "Paris"}}''
             weather_tool)
          ''Traffic in Paris?'') \<noteq> rephrase_message
   \<and> \<not> contains ''rephrase'' ''Unknown tool: get_traffic''\<close>
proof -
  have p: \<open>process_query json_loads
          (scripted_agent ''{"tool": "get_traffic", "parameters": {"location": "Paris"}}''
             weather_tool)
          ''Traffic in Paris?''
        = (''Unknown tool: '' @ ''get_traffic'',
           [ChatCall (model (scripted_agent
                        ''{"tool": "get_traffic", "parameters": {"location": "Paris"}}''
                        weather_tool))
              [(''system'', get_system_prompt), (''user'', ''Traffic in Paris?'')] 0.3])\<close>
    by (rule process_query_unknown [OF ev_chat ev_traffic]) (simp_all add: ev_tools)
  have c: "\<not> contains ''rephrase'' ''Unknown tool: get_traffic''" by code_simp
  show ?thesis unfolding p using c by (simp add: rephrase_message_def)
qed

text \<open>Claim C2, amended. When the decision names no registered tool (a string outside
  the registry, a number, a boolean, \<open>null\<close>, or no \<open>"tool"\<close> field), the cycle raises
  nothing: it replies \<open>Unknown tool:\<close> followed by the name (\<open>None\<close> for a missing field),
  after the selection call only, and the interactive session prints the reply and goes
  on with the next turn.\<close>

theorem unknown_tool_reply:
  assumes "chat_completions_create self (model self)
             [(''system'', get_system_prompt), (''user'', q)] 0.3 = Inr r"
    and "parse_tool_call loads r = Inr (JDict d)"
    and "str_hashable (case map_of d ''tool'' of None \<Rightarrow> JNull | Some v \<Rightarrow> v) = Inr shown"
    and "\<forall>n. map_of d ''tool'' = Some (JStr n) \<longrightarrow> map_of (tool_functions self) n = None"
  shows "process_query loads self q =
           (''Unknown tool: '' @ shown,
            [ChatCall (model self) [(''system'', get_system_prompt), (''user'', q)] 0.3])
         \<and> (\<forall>raw turns.
               strip raw = q \<and> q \<noteq> [] \<and> lower q \<notin> set [''exit'', ''quit'', ''bye''] \<longrightarrow>
               session_loop loads self (Line raw # turns) =
                 ((''\<newline>Agent: '' @ ''Unknown tool: '' @ shown @ ''\<newline>'')
                    # fst (session_loop loads self turns),
                  snd (session_loop loads self turns)))"
proof
  show p: "process_query loads self q =
           (''Unknown tool: '' @ shown,
            [ChatCall (model self) [(''system'', get_system_prompt), (''user'', q)] 0.3])"
    using assms by (rule process_query_unknown)
  show "\<forall>raw turns.
               strip raw = q \<and> q \<noteq> [] \<and> lower q \<notin> set [''exit'', ''quit'', ''bye''] \<longrightarrow>
               session_loop loads self (Line raw # turns) =
                 ((''\<newline>Agent: '' @ ''Unknown tool: '' @ shown @ ''\<newline>'')
                    # fst (session_loop loads self turns),
                  snd (session_loop loads self turns))"
  proof (intro allI impI, elim conjE)
    fix raw turns
    assume "strip raw = q" "q \<noteq> []" "lower q \<notin> set [''exit'', ''quit'', ''bye'']"
    then show "session_loop loads self (Line raw # turns) =
                 ((''\<newline>Agent: '' @ ''Unknown tool: '' @ shown @ ''\<newline>'')
                    # fst (session_loop loads self turns),
                  snd (session_loop loads self turns))"
      by (simp add: p Let_def split: prod.splits)
  qed
qed

text \<open>A session of two turns: the unknown tool, then \<open>Quit\<close>.\<close>

theorem unknown_tool_reply_witness:
  \<open>session_loop json_loads
      (scripted_agent ''{"tool": "get_traffic", "parameters": {"location": "Paris"}}''
         weather_tool)
      [Line ''Traffic in Paris?'', Line '' Quit '']
    = ([''\<newline>Agent: Unknown tool: get_traffic\<newline>'',
        ''\<newline>Goodbye! Stay safe and enjoy the weather!''], True)\<close>
proof -
  let ?a = \<open>scripted_agent ''{"tool": "get_traffic", "parameters": {"location": "Paris"}}''
              weather_tool\<close>
  have h: "str_hashable (case map_of [(''tool'', JStr ''get_traffic''),
                   (''parameters'', JDict [(''location'', JStr ''Paris'')])] ''tool'' of
                None \<Rightarrow> JNull | Some v \<Rightarrow> v) = Inr ''get_traffic''"
    by simp
  have a: "\<forall>n. map_of [(''tool'', JStr ''get_traffic''),
                   (''parameters'', JDict [(''location'', JStr ''Paris'')])] ''tool''
                 = Some (JStr n) \<longrightarrow> map_of (tool_functions ?a) n = None"
    by (simp add: ev_tools)
  note t = unknown_tool_reply [OF ev_chat ev_traffic h a, THEN conjunct2, rule_format,
      where raw = "''Traffic in Paris?''" and turns = "[Line '' Quit '']"]
  have q: "session_loop json_loads ?a [Line '' Quit '']
             = ([''\<newline>Goodbye! Stay safe and enjoy the weather!''], True)"
    by (simp add: ev_quit)
  have "strip ''Traffic in Paris?'' = ''Traffic in Paris?'' \<and> ''Traffic in Paris?'' \<noteq> []
        \<and> lower ''Traffic in Paris?'' \<notin> set [''exit'', ''quit'', ''bye'']"
    using ev_strip ev_lower by simp
  from t [OF this] show ?thesis unfolding q by simp
qed




end
